theory Spec2Isabelle
  imports Main "HOL-Library.Word"
begin

section \<open>Machine integers, places and tensors\<close>

text \<open>
  The kernel reads offsets as C++ \<open>int\<close> (32 bits, signed), compares them with
  \<open>int64_t\<close> extents and stores them as \<open>size_t\<close> (64 bits, unsigned). All three are
  words; signed readings go through \<open>sint\<close>, \<open>scast\<close> and the signed order \<open>\<le>s\<close>.
\<close>

type_synonym int32 = "32 word"
type_synonym int64 = "64 word"
type_synonym size_t = "64 word"
type_synonym uint64_t = "64 word"

text \<open>The errors of the runtime that the two source files can surface.\<close>

datatype error = InvalidArgument | OutOfMemory | InvalidPlace

text \<open>
  How a kernel run ends: normally, by a raised error (\<open>PADDLE_ENFORCE_*\<close> throws), or
  in a read that C++ leaves undefined (\<open>back()\<close> of an empty vector).
\<close>

datatype status = OK | Raised error | Undefined

datatype allocation_type = CPU | GPU | GPUPINNED | CUSTOM

text \<open>
  \<open>phi::Place\<close>: host memory, an accelerator device, pinned host memory or a custom
  device of some kind.
\<close>

datatype place = CPUPlace | GPUPlace nat | GPUPinnedPlace | CustomPlace string nat

fun GetType :: "place \<Rightarrow> allocation_type" where
  "GetType CPUPlace = CPU"
| "GetType (GPUPlace _) = GPU"
| "GetType GPUPinnedPlace = GPUPINNED"
| "GetType (CustomPlace _ _) = CUSTOM"

text \<open>
  \<open>phi::DDim\<close> is declared outside the two source files. The kernel reads a shape only
  through \<open>dims()[0]\<close>, the first-dimension extent, so a shape is that extent and the
  extents that follow it.
\<close>

record ddim =
  dim0 :: int64
  dims_rest :: "int64 list"

text \<open>
  \<open>LegacyLoD\<close> is \<open>std::vector<std::vector<size_t>>\<close>: a list of offset levels.
\<close>

type_synonym lod_level = "size_t list"
type_synonym legacy_lod = "lod_level list"

text \<open>
  \<open>phi::DenseTensor\<close>, as far as the kernel touches it: the buffer (the list of the
  tensor's \<open>numel()\<close> elements of type \<open>'a\<close>), the shape, the LoD and the place.
\<close>

record 'a dense_tensor =
  data :: "'a list"
  dims :: ddim
  lod :: legacy_lod
  place :: place

definition numel :: "'a dense_tensor \<Rightarrow> nat" where
  "numel t = length (data t)"

text \<open>A default-constructed tensor (\<open>phi::DenseTensor lod_cpu;\<close>).\<close>

definition empty_tensor :: "'a dense_tensor" where
  "empty_tensor = \<lparr>data = [], dims = \<lparr>dim0 = 0, dims_rest = []\<rparr>, lod = [], place = CPUPlace\<rparr>"

text \<open>
  Modelled from the spec: \<open>framework::TensorCopy\<close> and \<open>framework::TensorCopySync\<close>
  are defined outside the two source files. The specification calls them simple buffer-copy
  calls and the result a byte-for-byte copy of the input: the destination receives the
  source's buffer and shape at the destination place; its LoD is not part of the buffer
  and stays as it was.
\<close>

definition TensorCopy :: "'a dense_tensor \<Rightarrow> place \<Rightarrow> 'a dense_tensor \<Rightarrow> 'a dense_tensor" where
  "TensorCopy src dst_place dst = dst\<lparr>data := data src, dims := dims src, place := dst_place\<rparr>"

text \<open>
  Modelled from the spec: \<open>framework::TensorCopySync\<close>, the same buffer copy, complete
  when the call returns.
\<close>

definition TensorCopySync :: "'a dense_tensor \<Rightarrow> place \<Rightarrow> 'a dense_tensor \<Rightarrow> 'a dense_tensor" where
  "TensorCopySync src dst_place dst = dst\<lparr>data := data src, dims := dims src, place := dst_place\<rparr>"

section \<open>The LoD reset kernel (\<open>lod_reset_op.h\<close>)\<close>

text \<open>
  What \<open>Compute\<close> reads from the execution context: the output \<open>Out\<close>, the input
  \<open>X\<close>, the optional input \<open>Y\<close> (a null pointer when absent) and the attributes
  \<open>append\<close> and \<open>target_lod\<close>. \<open>Out\<close> and \<open>X\<close> are pointers that nothing keeps
  apart; when they name the same tensor, both fields hold that tensor. The kernel reads
  \<open>X\<close> for the copy and for \<open>dims()[0]\<close> only, and the only later write to \<open>Out\<close>
  is to its LoD, so the fields describe such a run as well.
\<close>

record 'a execution_context =
  Output_Out :: "'a dense_tensor"
  Input_X :: "'a dense_tensor"
  Input_Y :: "int32 dense_tensor option"
  attr_append :: bool
  attr_target_lod :: "int32 list"

text \<open>
  Lines 101 to 108: the loop \<open>for (size_t i = 0; i < level0.size() - 1; ++i)\<close> with
  \<open>PADDLE_ENFORCE_GE(level0[i + 1], level0[i], ...)\<close>, a comparison of two \<open>int\<close>.
  It runs only after the size check, so \<open>level0.size() - 1\<close> does not wrap.
\<close>

function ascending_loop :: "int32 list \<Rightarrow> nat \<Rightarrow> status" where
  "ascending_loop level0 i =
     (if i < length level0 - 1 then
        (if level0 ! i \<le>s level0 ! (i + 1) then ascending_loop level0 (i + 1)
         else Raised InvalidArgument)
      else OK)"
  by pat_completeness auto
termination
  by (relation "measure (\<lambda>(level0, i). length level0 - i)") auto

declare ascending_loop.simps [simp del]

text \<open>
  Lines 79 to 122: the checks on the flat list \<open>level0\<close> and the installation of the
  new level. \<open>out\<close> is the output after the copy of line 47.
\<close>

definition set_level0 ::
  "'a dense_tensor \<Rightarrow> bool \<Rightarrow> 'a dense_tensor \<Rightarrow> int32 list \<Rightarrow> 'a dense_tensor \<times> status" where
  "set_level0 in_t append_attr out level0 =
     (if \<not> 1 < length level0 then (out, Raised InvalidArgument)
      else if (scast (level0 ! 0) :: int64) \<noteq> 0 then (out, Raised InvalidArgument)
      else if (scast (last level0) :: int64) \<noteq> dim0 (dims in_t) then (out, Raised InvalidArgument)
      else
        (case ascending_loop level0 0 of
           OK \<Rightarrow>
             (let ulevel0 = map (\<lambda>a. (scast a :: size_t)) level0
              in if append_attr then (out\<lparr>lod := lod out @ [ulevel0]\<rparr>, OK)
                 else (out\<lparr>lod := [ulevel0]\<rparr>, OK))
         | st \<Rightarrow> (out, st)))"

text \<open>
  Lines 67 to 73: the offsets read from a LoD-less \<open>Input(Y)\<close>, through a host copy
  when the tensor lives on a GPU.
\<close>

definition level0_of_tensor :: "int32 dense_tensor \<Rightarrow> int32 list" where
  "level0_of_tensor lod_t =
     (let lod_cpu = (if GetType (place lod_t) = GPU then TensorCopySync lod_t CPUPlace empty_tensor
                     else lod_t)
      in take (numel lod_t) (data lod_cpu))"

text \<open>
  \<open>LoDResetKernel::Compute\<close>. The result is the output tensor as the run leaves it and
  the way the run ended; the copy of line 47 is done before any check, so it is in the
  output also when a check throws.
\<close>

definition LoDResetKernel_Compute :: "'a execution_context \<Rightarrow> 'a dense_tensor \<times> status" where
  "LoDResetKernel_Compute ctx =
     (let out = TensorCopy (Input_X ctx) (place (Input_X ctx)) (Output_Out ctx)
      in case Input_Y ctx of
           Some lod_t \<Rightarrow>
             if 0 < length (lod lod_t) then
               (let y_lod = lod lod_t;
                    last_level = y_lod ! (length y_lod - 1)
                in if last_level = [] then (out, Undefined)
                   else if last last_level \<noteq> dim0 (dims (Input_X ctx))
                     then (out, Raised InvalidArgument)
                   else (out\<lparr>lod := y_lod\<rparr>, OK))
             else set_level0 (Input_X ctx) (attr_append ctx) out (level0_of_tensor lod_t)
         | None \<Rightarrow>
             set_level0 (Input_X ctx) (attr_append ctx) out (attr_target_lod ctx))"

text \<open>
  \<open>LoDResetGradKernel::Compute\<close>: reads the gradient of \<open>Out\<close> and writes the gradient
  of \<open>X\<close>.
\<close>

record 'a grad_execution_context =
  Input_Out_grad :: "'a dense_tensor"
  Output_X_grad :: "'a dense_tensor"

definition LoDResetGradKernel_Compute :: "'a grad_execution_context \<Rightarrow> 'a dense_tensor \<times> status" where
  "LoDResetGradKernel_Compute ctx =
     (let d_out = Input_Out_grad ctx;
          d_x = Output_X_grad ctx
      in (TensorCopy d_out (place d_out) d_x, OK))"

text \<open>
  The flat offset list a run is given: the attribute \<open>target_lod\<close> when \<open>Input(Y)\<close> is
  absent, the elements of \<open>Input(Y)\<close> when it is present without a LoD.
\<close>

definition flat_offsets :: "'a execution_context \<Rightarrow> int32 list \<Rightarrow> bool" where
  "flat_offsets ctx level0 =
     (case Input_Y ctx of
        None \<Rightarrow> level0 = attr_target_lod ctx
      | Some lod_t \<Rightarrow> lod lod_t = [] \<and> level0 = level0_of_tensor lod_t)"

subsection \<open>Example inputs\<close>

text \<open>
  The input of the examples: five bytes with first-dimension extent 5 and a LoD of its own.
  The output before a run: an empty tensor that already carries one LoD level.
\<close>

definition x5 :: "8 word dense_tensor" where
  "x5 = \<lparr>data = [10, 20, 30, 40, 50], dims = \<lparr>dim0 = 5, dims_rest = []\<rparr>,
         lod = [[0, 1, 5]], place = CPUPlace\<rparr>"

definition out_before :: "8 word dense_tensor" where
  "out_before = \<lparr>data = [], dims = \<lparr>dim0 = 0, dims_rest = []\<rparr>, lod = [[0, 5]],
                 place = CPUPlace\<rparr>"

text \<open>A run on \<open>x5\<close> that takes its offsets from the attribute \<open>target_lod\<close>.\<close>

definition attr_ctx :: "bool \<Rightarrow> int32 list \<Rightarrow> 8 word execution_context" where
  "attr_ctx app l =
     \<lparr>Output_Out = out_before, Input_X = x5, Input_Y = None, attr_append = app,
      attr_target_lod = l\<rparr>"

text \<open>
  A run in place: \<open>Out\<close> and \<open>X\<close> are the same tensor \<open>x5\<close>, with the offsets from the
  attribute.
\<close>

definition inplace_ctx :: "bool \<Rightarrow> int32 list \<Rightarrow> 8 word execution_context" where
  "inplace_ctx app l =
     \<lparr>Output_Out = x5, Input_X = x5, Input_Y = None, attr_append = app, attr_target_lod = l\<rparr>"

text \<open>A run on \<open>x5\<close> with an \<open>Input(Y)\<close>; the attribute holds a valid list.\<close>

definition tensor_ctx :: "bool \<Rightarrow> int32 dense_tensor \<Rightarrow> 8 word execution_context" where
  "tensor_ctx app y =
     \<lparr>Output_Out = out_before, Input_X = x5, Input_Y = Some y, attr_append = app,
      attr_target_lod = [0, 5]\<rparr>"

text \<open>An \<open>Input(Y)\<close> without LoD, on a GPU, whose elements are the offsets.\<close>

definition y_flat :: "int32 list \<Rightarrow> int32 dense_tensor" where
  "y_flat l = \<lparr>data = l, dims = \<lparr>dim0 = of_nat (length l), dims_rest = []\<rparr>, lod = [],
               place = GPUPlace 0\<rparr>"

text \<open>An \<open>Input(Y)\<close> that carries the nested LoD \<open>l\<close> and no elements.\<close>

definition y_nested :: "legacy_lod \<Rightarrow> int32 dense_tensor" where
  "y_nested l = \<lparr>data = [], dims = \<lparr>dim0 = 0, dims_rest = []\<rparr>, lod = l, place = CPUPlace\<rparr>"

section \<open>The memory entry points (\<open>malloc.cc\<close>)\<close>

text \<open>
  Modelled from the spec: \<open>Allocation\<close> is declared outside the two source files. The
  specification gives it a base pointer, a size in bytes, the owning place and the set of
  streams with outstanding asynchronous access.
\<close>

type_synonym gpuStream_t = nat
type_synonym stream_t = nat

datatype phi_stream = Stream nat

record allocation =
  basePointer :: "64 word"
  sizeBytes :: size_t
  alloc_place :: place
  recordedStreams :: "phi_stream list"

text \<open>
  \<open>std::shared_ptr<Allocation>\<close> and \<open>AllocationPtr\<close> are smart pointers and can be
  null: \<open>None\<close> is the null handle.
\<close>

type_synonym allocation_handle = "allocation option"

text \<open>
  \<open>allocation::AllocatorFacade\<close> is defined outside the two source files, so the class
  is a parameter of the entry points: a record of its methods, each a function on the state
  \<open>'s\<close> of the process-wide instance that \<open>AllocatorFacade::Instance()\<close> returns. A
  method returns its value or the error it throws, and the state it leaves. Overloads of
  one C++ name get a suffix.
\<close>

record 's allocator_facade =
  facade_AllocShared :: "place \<Rightarrow> size_t \<Rightarrow> 's \<Rightarrow> (error + allocation_handle) \<times> 's"
  facade_Alloc :: "place \<Rightarrow> size_t \<Rightarrow> 's \<Rightarrow> (error + allocation_handle) \<times> 's"
  facade_Release :: "place \<Rightarrow> 's \<Rightarrow> (error + uint64_t) \<times> 's"
  facade_AllocShared_stream ::
    "place \<Rightarrow> size_t \<Rightarrow> phi_stream \<Rightarrow> 's \<Rightarrow> (error + allocation_handle) \<times> 's"
  facade_Alloc_stream ::
    "place \<Rightarrow> size_t \<Rightarrow> phi_stream \<Rightarrow> 's \<Rightarrow> (error + allocation_handle) \<times> 's"
  facade_InSameStream :: "allocation_handle \<Rightarrow> phi_stream \<Rightarrow> 's \<Rightarrow> (error + bool) \<times> 's"
  facade_GetBasePtr :: "allocation_handle \<Rightarrow> 's \<Rightarrow> (error + 64 word) \<times> 's"
  facade_Release_gpu :: "place \<Rightarrow> gpuStream_t \<Rightarrow> 's \<Rightarrow> (error + uint64_t) \<times> 's"
  facade_RecordStream :: "allocation_handle \<Rightarrow> gpuStream_t \<Rightarrow> 's \<Rightarrow> (error + bool) \<times> 's"
  facade_EraseStream :: "allocation_handle \<Rightarrow> gpuStream_t \<Rightarrow> 's \<Rightarrow> (error + unit) \<times> 's"
  facade_GetStream :: "allocation_handle \<Rightarrow> 's \<Rightarrow> (error + gpuStream_t) \<times> 's"
  facade_RecordStream_custom ::
    "allocation_handle \<Rightarrow> stream_t \<Rightarrow> 's \<Rightarrow> (error + bool) \<times> 's"

text \<open>Lines 23 to 56: the entry points of every build.\<close>

definition AllocShared ::
  "'s allocator_facade \<Rightarrow> place \<Rightarrow> size_t \<Rightarrow> 's \<Rightarrow> (error + allocation_handle) \<times> 's" where
  "AllocShared Instance p sz = facade_AllocShared Instance p sz"

definition Alloc ::
  "'s allocator_facade \<Rightarrow> place \<Rightarrow> size_t \<Rightarrow> 's \<Rightarrow> (error + allocation_handle) \<times> 's" where
  "Alloc Instance p sz = facade_Alloc Instance p sz"

definition Release :: "'s allocator_facade \<Rightarrow> place \<Rightarrow> 's \<Rightarrow> (error + uint64_t) \<times> 's" where
  "Release Instance p = facade_Release Instance p"

definition AllocShared_stream ::
  "'s allocator_facade \<Rightarrow> place \<Rightarrow> size_t \<Rightarrow> phi_stream \<Rightarrow> 's
     \<Rightarrow> (error + allocation_handle) \<times> 's" where
  "AllocShared_stream Instance p sz stream = facade_AllocShared_stream Instance p sz stream"

definition Alloc_stream ::
  "'s allocator_facade \<Rightarrow> place \<Rightarrow> size_t \<Rightarrow> phi_stream \<Rightarrow> 's
     \<Rightarrow> (error + allocation_handle) \<times> 's" where
  "Alloc_stream Instance p sz stream = facade_Alloc_stream Instance p sz stream"

definition InSameStream ::
  "'s allocator_facade \<Rightarrow> allocation_handle \<Rightarrow> phi_stream \<Rightarrow> 's \<Rightarrow> (error + bool) \<times> 's" where
  "InSameStream Instance a stream = facade_InSameStream Instance a stream"

definition GetBasePtr ::
  "'s allocator_facade \<Rightarrow> allocation_handle \<Rightarrow> 's \<Rightarrow> (error + 64 word) \<times> 's" where
  "GetBasePtr Instance a = facade_GetBasePtr Instance a"

text \<open>Lines 58 to 77: the entry points of the CUDA and HIP builds.\<close>

definition Release_gpu ::
  "'s allocator_facade \<Rightarrow> place \<Rightarrow> gpuStream_t \<Rightarrow> 's \<Rightarrow> (error + uint64_t) \<times> 's" where
  "Release_gpu Instance p stream = facade_Release_gpu Instance p stream"

definition RecordStream ::
  "'s allocator_facade \<Rightarrow> allocation_handle \<Rightarrow> gpuStream_t \<Rightarrow> 's \<Rightarrow> (error + bool) \<times> 's" where
  "RecordStream Instance a stream = facade_RecordStream Instance a stream"

definition EraseStream ::
  "'s allocator_facade \<Rightarrow> allocation_handle \<Rightarrow> gpuStream_t \<Rightarrow> 's \<Rightarrow> (error + unit) \<times> 's" where
  "EraseStream Instance a stream = facade_EraseStream Instance a stream"

definition GetStream ::
  "'s allocator_facade \<Rightarrow> allocation_handle \<Rightarrow> 's \<Rightarrow> (error + gpuStream_t) \<times> 's" where
  "GetStream Instance a = facade_GetStream Instance a"

text \<open>Lines 79 to 85: the entry point of the custom-device builds.\<close>

definition RecordStream_custom ::
  "'s allocator_facade \<Rightarrow> allocation_handle \<Rightarrow> stream_t \<Rightarrow> 's \<Rightarrow> (error + bool) \<times> 's" where
  "RecordStream_custom Instance a stream = facade_RecordStream_custom Instance a stream"

subsection \<open>The facade's \<open>Alloc\<close>, from the specification\<close>

text \<open>
  Modelled from the spec: the allocator strategies and \<open>AllocatorFacade::Alloc\<close> are
  defined outside the two source files. Following sections 3, 4.1, 4.2, 6 and 7 of the
  specification: a strategy serves one place; it rounds a request up to its bucket size,
  serves it from its pool of free blocks when one is large enough and from the device
  otherwise, and reports \<open>OutOfMemory\<close> when neither can; \<open>release\<close> returns the free
  blocks to the device; a request of size 0 gets a zero-sized allocation and never an
  error; a place for which no strategy can be registered is answered with
  \<open>InvalidPlace\<close>.
\<close>

text \<open>
  Modelled from the spec: the state of one strategy, that is the bytes the device can
  still hand out, the bucket size, the next fresh address, the pool of free blocks and
  the blocks handed out and not yet given back (base address and size each). Sizes and
  addresses are 64-bit words.
\<close>

record strategy =
  device_free :: size_t
  bucket :: size_t
  next_ptr :: "64 word"
  free_pool :: "(64 word \<times> size_t) list"
  in_use :: "(64 word \<times> size_t) list"

text \<open>
  Modelled from the spec: rounding a size up to a multiple of the bucket size (section
  4.2), computed without wrap-around; a bucket size of 0 means no rounding.
\<close>

definition round_up :: "nat \<Rightarrow> nat \<Rightarrow> nat" where
  "round_up b n = (if b = 0 then n else ((n + b - 1) div b) * b)"

text \<open>
  Modelled from the spec: \<open>allocate(size) -> Allocation | OutOfMemory\<close> of section 4.2,
  with the zero-size policy first. A rounded size that the device cannot hand out, which
  includes one that does not fit in a \<open>size_t\<close>, is \<open>OutOfMemory\<close>. Every block handed
  out is entered in \<open>in_use\<close>.
\<close>

definition strategy_allocate ::
  "place \<Rightarrow> size_t \<Rightarrow> strategy \<Rightarrow> (error + allocation) \<times> strategy" where
  "strategy_allocate p n s =
     (if n = 0 then
        (Inr \<lparr>basePointer = next_ptr s, sizeBytes = 0, alloc_place = p, recordedStreams = []\<rparr>,
         s\<lparr>in_use := (next_ptr s, 0) # in_use s\<rparr>)
      else
        (let need = round_up (unat (bucket s)) (unat n)
         in case find (\<lambda>blk. need \<le> unat (snd blk)) (free_pool s) of
              Some blk \<Rightarrow>
                (Inr \<lparr>basePointer = fst blk, sizeBytes = snd blk, alloc_place = p,
                      recordedStreams = []\<rparr>,
                 s\<lparr>free_pool := remove1 blk (free_pool s), in_use := blk # in_use s\<rparr>)
            | None \<Rightarrow>
                if need \<le> unat (device_free s) then
                  (Inr \<lparr>basePointer = next_ptr s, sizeBytes = of_nat need, alloc_place = p,
                        recordedStreams = []\<rparr>,
                   s\<lparr>device_free := device_free s - of_nat need,
                     next_ptr := next_ptr s + of_nat need,
                     in_use := (next_ptr s, of_nat need) # in_use s\<rparr>)
                else (Inl OutOfMemory, s)))"

text \<open>
  Modelled from the spec: \<open>release() -> bytesReclaimed\<close> of section 4.2, which hands
  every free block back to the device.
\<close>

definition strategy_release :: "strategy \<Rightarrow> uint64_t \<times> strategy" where
  "strategy_release s =
     (let bytes = sum_list (map snd (free_pool s))
      in (bytes, s\<lparr>device_free := device_free s + bytes, free_pool := []\<rparr>))"

text \<open>
  Modelled from the spec: the retry wrapper of section 4.2. When \<open>allocate\<close> fails it
  runs a \<open>release\<close> pass and retries once before it surfaces \<open>OutOfMemory\<close>.
\<close>

definition retry_allocate ::
  "place \<Rightarrow> size_t \<Rightarrow> strategy \<Rightarrow> (error + allocation) \<times> strategy" where
  "retry_allocate p n s =
     (case strategy_allocate p n s of
        (Inr a, s') \<Rightarrow> (Inr a, s')
      | (Inl e, s') \<Rightarrow> strategy_allocate p n (snd (strategy_release s')))"

text \<open>
  Modelled from the spec: the registry of section 3 maps a place to its strategy and is
  filled lazily, on the first request for a place, from the configuration
  \<open>new_strategy\<close>, which has no strategy for a place the build or target does not
  support (section 9: such strategies are simply not registered).
\<close>

record facade_state =
  registry :: "place \<Rightarrow> strategy option"
  new_strategy :: "place \<Rightarrow> strategy option"

text \<open>
  Modelled from the spec: \<open>Alloc(place, size) -> OwnedAllocation\<close> of section 4.1.
  It resolves the strategy of the place, fails with \<open>InvalidPlace\<close> (sections 6 and 7)
  when there is none and none can be registered, and otherwise lets the strategy produce
  the allocation, keeps the strategy's new state in the registry and hands the allocation
  out behind a handle.
\<close>

definition AllocatorFacade_Alloc ::
  "place \<Rightarrow> size_t \<Rightarrow> facade_state \<Rightarrow> (error + allocation_handle) \<times> facade_state" where
  "AllocatorFacade_Alloc p sz st =
     (case (case registry st p of Some s \<Rightarrow> Some s | None \<Rightarrow> new_strategy st p) of
        None \<Rightarrow> (Inl InvalidPlace, st)
      | Some s \<Rightarrow>
          (case retry_allocate p sz s of
             (Inr a, s') \<Rightarrow> (Inr (Some a), st\<lparr>registry := (registry st)(p \<mapsto> s')\<rparr>)
           | (Inl e, s') \<Rightarrow> (Inl e, st\<lparr>registry := (registry st)(p \<mapsto> s')\<rparr>)))"


text \<open>
  An example instance: no strategy registered yet; the host and GPU 0 are supported, each
  starting with 1024 bytes on the device, buckets of 256 bytes and addresses from 4096;
  no other place is supported.
\<close>

definition fresh_state :: facade_state where
  "fresh_state =
     \<lparr>registry = (\<lambda>p. None),
      new_strategy =
        (\<lambda>p. if p = CPUPlace \<or> p = GPUPlace 0
             then Some \<lparr>device_free = 1024, bucket = 256, next_ptr = 4096, free_pool = [],
                        in_use = []\<rparr>
             else None)\<rparr>"

section \<open>Properties of the kernel\<close>

lemma flat_offsets_Compute:
  "flat_offsets ctx level0 \<Longrightarrow>
   LoDResetKernel_Compute ctx =
     set_level0 (Input_X ctx) (attr_append ctx)
       (TensorCopy (Input_X ctx) (place (Input_X ctx)) (Output_Out ctx)) level0"
  by (auto simp: flat_offsets_def LoDResetKernel_Compute_def Let_def split: option.splits)

lemma ascending_loop_cases:
  "ascending_loop level0 i = OK \<or> ascending_loop level0 i = Raised InvalidArgument"
proof (induction level0 i rule: ascending_loop.induct)
  case (1 level0 i)
  then show ?case
    by (subst (1 2) ascending_loop.simps) auto
qed

lemma ascending_loop_OK_iff:
  "ascending_loop level0 i = OK \<longleftrightarrow>
     (\<forall>j. i \<le> j \<and> j + 1 < length level0 \<longrightarrow> level0 ! j \<le>s level0 ! (j + 1))"
proof (induction level0 i rule: ascending_loop.induct)
  case (1 level0 i)
  show ?case
  proof (cases "i < length level0 - 1")
    case False
    then show ?thesis
      by (subst ascending_loop.simps) auto
  next
    case True
    show ?thesis
    proof (cases "level0 ! i \<le>s level0 ! (i + 1)")
      case False
      with True show ?thesis
        by (subst ascending_loop.simps) auto
    next
      case le: True
      have "ascending_loop level0 i = ascending_loop level0 (i + 1)"
        using True le by (subst ascending_loop.simps) simp
      also have "\<dots> = OK \<longleftrightarrow>
          (\<forall>j. i + 1 \<le> j \<and> j + 1 < length level0 \<longrightarrow> level0 ! j \<le>s level0 ! (j + 1))"
        using "1.IH" True le by simp
      also have "\<dots> \<longleftrightarrow>
          (\<forall>j. i \<le> j \<and> j + 1 < length level0 \<longrightarrow> level0 ! j \<le>s level0 ! (j + 1))"
      proof (intro iffI allI impI)
        fix j
        assume H: "\<forall>j. i + 1 \<le> j \<and> j + 1 < length level0 \<longrightarrow> level0 ! j \<le>s level0 ! (j + 1)"
          and J: "i \<le> j \<and> j + 1 < length level0"
        show "level0 ! j \<le>s level0 ! (j + 1)"
        proof (cases "j = i")
          case True
          with le show ?thesis by simp
        next
          case False
          with J have "i + 1 \<le> j" by simp
          with H J show ?thesis by blast
        qed
      next
        fix j
        assume "\<forall>j. i \<le> j \<and> j + 1 < length level0 \<longrightarrow> level0 ! j \<le>s level0 ! (j + 1)"
          and "i + 1 \<le> j \<and> j + 1 < length level0"
        then show "level0 ! j \<le>s level0 ! (j + 1)" by simp
      qed
      finally show ?thesis .
    qed
  qed
qed

lemma ascending_from_zero:
  assumes "\<forall>j. j + 1 < length level0 \<longrightarrow> level0 ! j \<le>s level0 ! (j + 1)"
    and "k < length level0"
  shows "sint (level0 ! 0) \<le> sint (level0 ! k)"
  using assms(2)
proof (induction k)
  case 0
  then show ?case by simp
next
  case (Suc k)
  then have "sint (level0 ! k) \<le> sint (level0 ! Suc k)"
    using assms(1) by (simp add: word_sle_eq)
  with Suc show ?case by simp
qed

lemma scast_nonneg_value:
  fixes a :: int32
  assumes "0 \<le> sint a"
  shows "uint (scast a :: size_t) = sint a"
proof -
  have "sint a < 2 ^ 31"
    using sint_less [of a] by simp
  then have "sint a < (2 ^ 64 :: int)"
    by simp
  then have "take_bit 64 (sint a) = sint a"
    using assms by (intro take_bit_int_eq_self)
  moreover have "(scast a :: size_t) = word_of_int (sint a)"
    by (rule scast_eq)
  ultimately show ?thesis
    by (simp only: uint_word_of_int_eq) simp
qed

lemma scast_eq_0_iff: "(scast (a :: int32) :: int64) = 0 \<longleftrightarrow> a = 0"
proof
  assume "(scast a :: int64) = 0"
  then have "sint (scast a :: int64) = 0"
    by simp
  moreover have "sint (scast a :: int64) = sint a"
    by (rule sint_up_scast) (simp add: is_up)
  ultimately have "sint a = 0"
    by simp
  then show "a = 0"
    by (simp add: signed_eq_0_iff)
next
  assume "a = 0"
  then show "(scast a :: int64) = 0"
    by simp
qed

lemma set_level0_OK:
  assumes "set_level0 in_t app out level0 = (out', OK)"
  shows "1 < length level0 \<and> level0 ! 0 = 0 \<and> (scast (last level0) :: int64) = dim0 (dims in_t) \<and>
         (\<forall>j. j + 1 < length level0 \<longrightarrow> level0 ! j \<le>s level0 ! (j + 1)) \<and>
         out' = out\<lparr>lod := (if app then lod out else []) @ [map scast level0]\<rparr>"
  using assms ascending_loop_OK_iff [of level0 0]
  by (auto simp: set_level0_def Let_def scast_eq_0_iff split: if_splits status.splits)

lemma set_level0_valid:
  assumes "1 < length level0" "level0 ! 0 = 0" "(scast (last level0) :: int64) = dim0 (dims in_t)"
    "\<forall>j. j + 1 < length level0 \<longrightarrow> level0 ! j \<le>s level0 ! (j + 1)"
  shows "set_level0 in_t app out level0 = (out\<lparr>lod := (if app then lod out else []) @ [map scast level0]\<rparr>, OK)"
proof -
  have "ascending_loop level0 0 = OK"
    using assms(4) by (simp add: ascending_loop_OK_iff)
  then show ?thesis
    using assms(1-3) by (simp add: set_level0_def Let_def)
qed

lemma set_level0_not_OK:
  assumes "snd (set_level0 in_t app out level0) \<noteq> OK"
  shows "set_level0 in_t app out level0 = (out, Raised InvalidArgument)"
  using assms ascending_loop_cases [of level0 0]
  by (auto simp: set_level0_def Let_def split: if_splits status.splits)




lemmas example_defs =
  attr_ctx_def inplace_ctx_def tensor_ctx_def y_flat_def y_nested_def x5_def out_before_def

lemmas run_defs =
  LoDResetKernel_Compute_def set_level0_def level0_of_tensor_def numel_def TensorCopy_def
  TensorCopySync_def empty_tensor_def ascending_loop.simps word_sle_eq Let_def

lemma ascending_nonneg:
  fixes level0 :: "int32 list"
  assumes "level0 ! 0 = 0"
    and "\<forall>j. j + 1 < length level0 \<longrightarrow> level0 ! j \<le>s level0 ! (j + 1)"
  shows "map uint (map (\<lambda>a. (scast a :: size_t)) level0) = map sint level0"
proof -
  have "uint (scast a :: size_t) = sint a" if "a \<in> set level0" for a
  proof -
    from that obtain k where "k < length level0" and "a = level0 ! k"
      by (auto simp: in_set_conv_nth)
    then have "sint (level0 ! 0) \<le> sint a"
      using ascending_from_zero [OF assms(2)] by simp
    with assms(1) show ?thesis
      by (simp add: scast_nonneg_value)
  qed
  then show ?thesis
    by simp
qed

lemma flat_or_nested:
  "(\<exists>level0. flat_offsets ctx level0) \<or> (\<exists>lod_t. Input_Y ctx = Some lod_t \<and> lod lod_t \<noteq> [])"
  by (cases "Input_Y ctx") (auto simp: flat_offsets_def)

lemma nested_OK:
  assumes "Input_Y ctx = Some lod_t"
    and "lod lod_t \<noteq> []"
    and "LoDResetKernel_Compute ctx = (out', OK)"
  shows "out' = (TensorCopy (Input_X ctx) (place (Input_X ctx)) (Output_Out ctx))\<lparr>lod := lod lod_t\<rparr>"
  using assms by (simp add: LoDResetKernel_Compute_def Let_def split: if_splits)

lemma flat_OK:
  assumes "flat_offsets ctx level0"
    and "LoDResetKernel_Compute ctx = (out', OK)"
  shows "out' = (TensorCopy (Input_X ctx) (place (Input_X ctx)) (Output_Out ctx))
                  \<lparr>lod := (if attr_append ctx
                           then lod (TensorCopy (Input_X ctx) (place (Input_X ctx)) (Output_Out ctx))
                           else []) @ [map scast level0]\<rparr> \<and>
         level0 ! 0 = 0 \<and> (\<forall>j. j + 1 < length level0 \<longrightarrow> level0 ! j \<le>s level0 ! (j + 1))"
proof -
  let ?out = "TensorCopy (Input_X ctx) (place (Input_X ctx)) (Output_Out ctx)"
  from assms have "set_level0 (Input_X ctx) (attr_append ctx) ?out level0 = (out', OK)"
    using flat_offsets_Compute [of ctx level0] by simp
  from set_level0_OK [OF this] show ?thesis
    by simp
qed

section \<open>Properties of the entry points and of the modelled allocator\<close>

text \<open>
  Each entry point of \<open>malloc.cc\<close> hands its arguments to the facade method of the same
  name and returns what that method returns, value or error, with the state it leaves.
\<close>

lemma entry_points_forward:
  "AllocShared F p sz st = facade_AllocShared F p sz st \<and>
   Alloc F p sz st = facade_Alloc F p sz st \<and>
   Release F p st = facade_Release F p st \<and>
   AllocShared_stream F p sz stream st = facade_AllocShared_stream F p sz stream st \<and>
   Alloc_stream F p sz stream st = facade_Alloc_stream F p sz stream st \<and>
   InSameStream F a stream st = facade_InSameStream F a stream st \<and>
   GetBasePtr F a st = facade_GetBasePtr F a st \<and>
   Release_gpu F p gs st = facade_Release_gpu F p gs st \<and>
   RecordStream F a gs st = facade_RecordStream F a gs st \<and>
   EraseStream F a gs st = facade_EraseStream F a gs st \<and>
   GetStream F a st = facade_GetStream F a st \<and>
   RecordStream_custom F a cs st = facade_RecordStream_custom F a cs st"
  by (simp add: AllocShared_def Alloc_def Release_def AllocShared_stream_def Alloc_stream_def
      InSameStream_def GetBasePtr_def Release_gpu_def RecordStream_def EraseStream_def
      GetStream_def RecordStream_custom_def)








text \<open>
  Both outcomes occur on a supported place: a request is rounded up to its bucket, a
  request of size 0 is served with an allocation of size 0, and a request beyond the
  device fails.
\<close>

lemma Alloc_examples:
  "fst (AllocatorFacade_Alloc (GPUPlace 0) 100 fresh_state) =
     Inr (Some \<lparr>basePointer = 4096, sizeBytes = 256, alloc_place = GPUPlace 0, recordedStreams = []\<rparr>)"
  "fst (AllocatorFacade_Alloc (GPUPlace 0) 0 fresh_state) =
     Inr (Some \<lparr>basePointer = 4096, sizeBytes = 0, alloc_place = GPUPlace 0, recordedStreams = []\<rparr>)"
  "fst (AllocatorFacade_Alloc (GPUPlace 0) 2000 fresh_state) = Inl OutOfMemory"
  by (simp_all add: AllocatorFacade_Alloc_def retry_allocate_def strategy_allocate_def
      strategy_release_def round_up_def fresh_state_def Let_def)

section \<open>The claims\<close>

subsection \<open>C1: offsets that go down are rejected, equal neighbours are not\<close>

text \<open>
  C1 as stated asks for strict monotonicity: a flat list with two equal adjacent offsets
  would have to be rejected. The loop compares with \<open>PADDLE_ENFORCE_GE\<close>, so the list
  \<open>[0, 2, 2, 5]\<close> on an input of extent 5 has an adjacent pair whose later offset is not
  strictly greater, and the run succeeds and installs the list as it is.
\<close>

theorem equal_adjacent_offsets_accepted:
  "\<not> (([0, 2, 2, 5] :: int32 list) ! 1 <s [0, 2, 2, 5] ! 2) \<and>
   snd (LoDResetKernel_Compute (attr_ctx False [0, 2, 2, 5])) = OK \<and>
   lod (fst (LoDResetKernel_Compute (attr_ctx False [0, 2, 2, 5]))) = [[0, 2, 2, 5]]"
  by (simp add: example_defs run_defs word_sless_alt)

text \<open>
  C1, amended: for every flat offset list, from the attribute or from a LoD-less
  \<open>Input(Y)\<close>, that has an adjacent pair whose later offset is smaller than the earlier
  one, the run ends in \<open>InvalidArgument\<close>; the output is left as the copy of line 47
  made it, so no corrected list is installed. The list \<open>[0, 3, 2, 5]\<close> is rejected.
\<close>

theorem decreasing_offsets_rejected:
  assumes "flat_offsets ctx level0"
    and "i + 1 < length level0"
    and "level0 ! (i + 1) <s level0 ! i"
  shows "LoDResetKernel_Compute ctx =
           (TensorCopy (Input_X ctx) (place (Input_X ctx)) (Output_Out ctx),
            Raised InvalidArgument)"
proof -
  let ?out = "TensorCopy (Input_X ctx) (place (Input_X ctx)) (Output_Out ctx)"
  let ?r = "set_level0 (Input_X ctx) (attr_append ctx) ?out level0"
  have "snd ?r \<noteq> OK"
  proof
    assume "snd ?r = OK"
    then have "?r = (fst ?r, OK)"
      by (metis prod.collapse)
    then have "level0 ! i \<le>s level0 ! (i + 1)"
      using set_level0_OK assms(2) by blast
    with assms(3) show False
      by (simp add: word_sle_eq word_sless_alt)
  qed
  then have "?r = (?out, Raised InvalidArgument)"
    by (rule set_level0_not_OK)
  with assms(1) show ?thesis
    by (simp add: flat_offsets_Compute)
qed

theorem decreasing_offsets_rejected_witness:
  "flat_offsets (attr_ctx False [0, 3, 2, 5]) [0, 3, 2, 5] \<and>
   1 + 1 < length ([0, 3, 2, 5] :: int32 list) \<and>
   ([0, 3, 2, 5] :: int32 list) ! (1 + 1) <s [0, 3, 2, 5] ! 1 \<and>
   LoDResetKernel_Compute (attr_ctx False [0, 3, 2, 5]) =
     (\<lparr>data = [10, 20, 30, 40, 50], dims = \<lparr>dim0 = 5, dims_rest = []\<rparr>, lod = [[0, 5]],
       place = CPUPlace\<rparr>, Raised InvalidArgument)"
proof -
  have h1: "flat_offsets (attr_ctx False [0, 3, 2, 5]) [0, 3, 2, 5]"
    by (simp add: flat_offsets_def attr_ctx_def)
  have h2: "1 + 1 < length ([0, 3, 2, 5] :: int32 list)"
    by simp
  have h3: "([0, 3, 2, 5] :: int32 list) ! (1 + 1) <s [0, 3, 2, 5] ! 1"
    by (simp add: word_sless_alt)
  show ?thesis
    using h1 h2 h3 decreasing_offsets_rejected [OF h1 h2 h3]
    by (simp add: example_defs TensorCopy_def)
qed

subsection \<open>C2: a nested LoD on \<open>Input(Y)\<close> is adopted after one check\<close>

text \<open>
  C2: when \<open>Input(Y)\<close> carries a non-empty LoD whose last level is not empty, the outcome
  of the run depends on that LoD only through the last value of its last level: if it
  equals the first-dimension extent of \<open>X\<close> the whole LoD becomes the LoD of the output
  and the run succeeds, otherwise the run ends in \<open>InvalidArgument\<close>. Nothing else about
  the nested LoD is checked, and neither the elements of \<open>Input(Y)\<close> nor the attribute
  \<open>target_lod\<close> are looked at. (An empty last level makes \<open>back()\<close> undefined.)
\<close>

theorem nested_lod_trusted:
  assumes "Input_Y ctx = Some lod_t"
    and "lod lod_t \<noteq> []"
    and "last (lod lod_t) \<noteq> []"
  shows "LoDResetKernel_Compute ctx =
           (let out = TensorCopy (Input_X ctx) (place (Input_X ctx)) (Output_Out ctx)
            in if last (last (lod lod_t)) = dim0 (dims (Input_X ctx))
               then (out\<lparr>lod := lod lod_t\<rparr>, OK)
               else (out, Raised InvalidArgument))"
  using assms by (simp add: LoDResetKernel_Compute_def Let_def last_conv_nth)

text \<open>
  The nested LoD \<open>[[0, 1], [4, 3, 5]]\<close> is neither ascending nor does its last level
  start at 0, and the tensor has no elements, so the flat list would be empty; it is
  adopted all the same.
\<close>

theorem nested_lod_trusted_witness:
  "Input_Y (tensor_ctx False (y_nested [[0, 1], [4, 3, 5]])) = Some (y_nested [[0, 1], [4, 3, 5]]) \<and>
   lod (y_nested [[0, 1], [4, 3, 5]]) \<noteq> [] \<and>
   last (lod (y_nested [[0, 1], [4, 3, 5]])) \<noteq> [] \<and>
   LoDResetKernel_Compute (tensor_ctx False (y_nested [[0, 1], [4, 3, 5]])) =
     (\<lparr>data = [10, 20, 30, 40, 50], dims = \<lparr>dim0 = 5, dims_rest = []\<rparr>,
       lod = [[0, 1], [4, 3, 5]], place = CPUPlace\<rparr>, OK) \<and>
   level0_of_tensor (y_nested [[0, 1], [4, 3, 5]]) = []"
proof -
  have h1: "Input_Y (tensor_ctx False (y_nested [[0, 1], [4, 3, 5]])) = Some (y_nested [[0, 1], [4, 3, 5]])"
    by (simp add: tensor_ctx_def)
  have h2: "lod (y_nested [[0, 1], [4, 3, 5]]) \<noteq> []"
    by (simp add: y_nested_def)
  have h3: "last (lod (y_nested [[0, 1], [4, 3, 5]])) \<noteq> []"
    by (simp add: y_nested_def)
  have h4: "level0_of_tensor (y_nested [[0, 1], [4, 3, 5]]) = []"
    by (simp add: y_nested_def level0_of_tensor_def numel_def)
  show ?thesis
    using h1 h2 h3 h4 nested_lod_trusted [OF h1 h2 h3]
    by (simp add: example_defs TensorCopy_def)
qed

subsection \<open>C3: the last offset must equal the extent\<close>

text \<open>
  C3: every flat offset list whose last element, widened to \<open>int64_t\<close>, differs from the
  first-dimension extent of \<open>X\<close> ends the run in \<open>InvalidArgument\<close>. With extent 5 the
  list \<open>[0, 2, 5]\<close> succeeds and becomes the output's LoD, and \<open>[0, 2, 4]\<close> fails with
  \<open>InvalidArgument\<close>.
\<close>

theorem last_offset_must_match_extent:
  "(flat_offsets ctx level0 \<and> level0 \<noteq> [] \<and>
      (scast (last level0) :: int64) \<noteq> dim0 (dims (Input_X ctx)) \<longrightarrow>
    LoDResetKernel_Compute ctx =
      (TensorCopy (Input_X ctx) (place (Input_X ctx)) (Output_Out ctx), Raised InvalidArgument)) \<and>
   LoDResetKernel_Compute (attr_ctx False [0, 2, 5]) =
     ((TensorCopy x5 CPUPlace out_before)\<lparr>lod := [[0, 2, 5]]\<rparr>, OK) \<and>
   LoDResetKernel_Compute (attr_ctx False [0, 2, 4]) =
     (TensorCopy x5 CPUPlace out_before, Raised InvalidArgument)"
proof (intro conjI impI)
  assume a: "flat_offsets ctx level0 \<and> level0 \<noteq> [] \<and>
      (scast (last level0) :: int64) \<noteq> dim0 (dims (Input_X ctx))"
  let ?out = "TensorCopy (Input_X ctx) (place (Input_X ctx)) (Output_Out ctx)"
  have "set_level0 (Input_X ctx) (attr_append ctx) ?out level0 = (?out, Raised InvalidArgument)"
    using a by (simp add: set_level0_def)
  with a flat_offsets_Compute [of ctx level0]
  show "LoDResetKernel_Compute ctx = (?out, Raised InvalidArgument)"
    by simp
next
  show "LoDResetKernel_Compute (attr_ctx False [0, 2, 5]) =
     ((TensorCopy x5 CPUPlace out_before)\<lparr>lod := [[0, 2, 5]]\<rparr>, OK)"
    by (simp add: example_defs run_defs)
next
  show "LoDResetKernel_Compute (attr_ctx False [0, 2, 4]) =
     (TensorCopy x5 CPUPlace out_before, Raised InvalidArgument)"
    by (simp add: example_defs run_defs)
qed

theorem last_offset_must_match_extent_witness:
  "flat_offsets (tensor_ctx False (y_flat [0, 2, 4])) [0, 2, 4] \<and>
   ([0, 2, 4] :: int32 list) \<noteq> [] \<and>
   (scast (last ([0, 2, 4] :: int32 list)) :: int64) \<noteq> dim0 (dims x5) \<and>
   LoDResetKernel_Compute (tensor_ctx False (y_flat [0, 2, 4])) =
     (\<lparr>data = [10, 20, 30, 40, 50], dims = \<lparr>dim0 = 5, dims_rest = []\<rparr>, lod = [[0, 5]],
       place = CPUPlace\<rparr>, Raised InvalidArgument)"
proof -
  have h: "flat_offsets (tensor_ctx False (y_flat [0, 2, 4])) [0, 2, 4] \<and>
      ([0, 2, 4] :: int32 list) \<noteq> [] \<and>
      (scast (last ([0, 2, 4] :: int32 list)) :: int64) \<noteq>
        dim0 (dims (Input_X (tensor_ctx False (y_flat [0, 2, 4]))))"
    by (simp add: flat_offsets_def example_defs level0_of_tensor_def numel_def
        TensorCopySync_def empty_tensor_def)
  show ?thesis
    using h last_offset_must_match_extent [of "tensor_ctx False (y_flat [0, 2, 4])" "[0, 2, 4]"]
    by (simp add: example_defs TensorCopy_def)
qed

subsection \<open>C4: what a successful run leaves in the output\<close>

text \<open>
  C4 as stated says that after every successful run the LoD of the output equals the
  supplied new offset index. With \<open>append\<close> set, the output keeps the levels it had:
  the list \<open>[0, 2, 5]\<close> on an output that carried \<open>[[0, 5]]\<close> gives
  \<open>[[0, 5], [0, 2, 5]]\<close>, which is not the supplied index \<open>[[0, 2, 5]]\<close>.
\<close>

theorem appended_level_not_the_supplied_index:
  "snd (LoDResetKernel_Compute (attr_ctx True [0, 2, 5])) = OK \<and>
   lod (fst (LoDResetKernel_Compute (attr_ctx True [0, 2, 5]))) = [[0, 5], [0, 2, 5]] \<and>
   lod (fst (LoDResetKernel_Compute (attr_ctx True [0, 2, 5]))) \<noteq> [[0, 2, 5]]"
  by (simp add: example_defs run_defs)

text \<open>
  C4, amended: on every successful run the buffer of the output is the buffer of \<open>X\<close>;
  when \<open>Input(Y)\<close> carries a LoD, the LoD of the output is that LoD; for a flat list the
  LoD of the output is the single level holding the list when \<open>append\<close> is false, and
  the levels the output held before the run, followed by that level, when \<open>append\<close> is
  true; the stored \<open>size_t\<close> offsets have the values of the supplied \<open>int\<close> offsets. The
  LoD of \<open>X\<close> reaches the output only as such kept levels: in a run in place, where
  \<open>Out\<close> and \<open>X\<close> are the same tensor, \<open>append\<close> leaves the levels of \<open>X\<close> followed by the
  new level.
\<close>

theorem successful_run_output:
  assumes "LoDResetKernel_Compute ctx = (out', OK)"
  shows "data out' = data (Input_X ctx) \<and>
         (\<forall>lod_t. Input_Y ctx = Some lod_t \<and> lod lod_t \<noteq> [] \<longrightarrow> lod out' = lod lod_t) \<and>
         (\<forall>level0. flat_offsets ctx level0 \<longrightarrow>
            lod out' = (if attr_append ctx then lod (Output_Out ctx) else []) @ [map scast level0] \<and>
            map uint (last (lod out')) = map sint level0) \<and>
         (\<forall>level0. flat_offsets ctx level0 \<and> attr_append ctx \<and> Output_Out ctx = Input_X ctx \<longrightarrow>
            lod out' = lod (Input_X ctx) @ [map scast level0])"
proof (intro conjI allI impI)
  show "data out' = data (Input_X ctx)"
    using flat_or_nested [of ctx]
  proof (elim disjE exE conjE)
    fix level0
    assume "flat_offsets ctx level0"
    from flat_OK [OF this assms] show ?thesis
      by (simp add: TensorCopy_def)
  next
    fix lod_t
    assume "Input_Y ctx = Some lod_t" and "lod lod_t \<noteq> []"
    from nested_OK [OF this assms] show ?thesis
      by (simp add: TensorCopy_def)
  qed
  show "lod out' = lod lod_t" if "Input_Y ctx = Some lod_t \<and> lod lod_t \<noteq> []" for lod_t
    using that nested_OK [of ctx lod_t out'] assms by simp
  show "lod out' = (if attr_append ctx then lod (Output_Out ctx) else []) @ [map scast level0]"
    if "flat_offsets ctx level0" for level0
    using flat_OK [OF that assms] by (simp add: TensorCopy_def)
  show "map uint (last (lod out')) = map sint level0" if "flat_offsets ctx level0" for level0
  proof -
    from flat_OK [OF that assms] have "last (lod out') = map scast level0"
      by simp
    with flat_OK [OF that assms] show ?thesis
      using ascending_nonneg [of level0] by simp
  qed
  show "lod out' = lod (Input_X ctx) @ [map scast level0]"
    if "flat_offsets ctx level0 \<and> attr_append ctx \<and> Output_Out ctx = Input_X ctx" for level0
  proof -
    from that have "flat_offsets ctx level0"
      by simp
    from flat_OK [OF this assms] that show ?thesis
      by (simp add: TensorCopy_def)
  qed
qed

text \<open>
  A run in place with \<open>append\<close>: the tensor \<open>x5\<close> carries \<open>[[0, 1, 5]]\<close> and ends with
  \<open>[[0, 1, 5], [0, 2, 5]]\<close>.
\<close>

theorem successful_run_output_witness:
  "LoDResetKernel_Compute (inplace_ctx True [0, 2, 5]) =
     (\<lparr>data = [10, 20, 30, 40, 50], dims = \<lparr>dim0 = 5, dims_rest = []\<rparr>,
       lod = [[0, 1, 5], [0, 2, 5]], place = CPUPlace\<rparr>, OK) \<and>
   flat_offsets (inplace_ctx True [0, 2, 5]) [0, 2, 5] \<and>
   attr_append (inplace_ctx True [0, 2, 5]) \<and>
   Output_Out (inplace_ctx True [0, 2, 5]) = Input_X (inplace_ctx True [0, 2, 5]) \<and>
   data \<lparr>data = [10, 20, 30, 40, 50 :: 8 word], dims = \<lparr>dim0 = 5, dims_rest = []\<rparr>,
         lod = [[0, 1, 5], [0, 2, 5]], place = CPUPlace\<rparr> =
     data (Input_X (inplace_ctx True [0, 2, 5])) \<and>
   lod \<lparr>data = [10, 20, 30, 40, 50 :: 8 word], dims = \<lparr>dim0 = 5, dims_rest = []\<rparr>,
        lod = [[0, 1, 5], [0, 2, 5]], place = CPUPlace\<rparr> =
     lod (Input_X (inplace_ctx True [0, 2, 5])) @ [map scast [0, 2, 5 :: int32]]"
proof -
  have h: "LoDResetKernel_Compute (inplace_ctx True [0, 2, 5]) =
     (\<lparr>data = [10, 20, 30, 40, 50], dims = \<lparr>dim0 = 5, dims_rest = []\<rparr>,
       lod = [[0, 1, 5], [0, 2, 5]], place = CPUPlace\<rparr>, OK)"
    by (simp add: example_defs run_defs)
  have f: "flat_offsets (inplace_ctx True [0, 2, 5]) [0, 2, 5] \<and>
      attr_append (inplace_ctx True [0, 2, 5]) \<and>
      Output_Out (inplace_ctx True [0, 2, 5]) = Input_X (inplace_ctx True [0, 2, 5])"
    by (simp add: flat_offsets_def inplace_ctx_def)
  note t = successful_run_output [OF h]
  from t have d: "data \<lparr>data = [10, 20, 30, 40, 50 :: 8 word], dims = \<lparr>dim0 = 5, dims_rest = []\<rparr>,
         lod = [[0, 1, 5], [0, 2, 5]], place = CPUPlace\<rparr> =
     data (Input_X (inplace_ctx True [0, 2, 5]))"
    by (rule conjunct1)
  from t f have l: "lod \<lparr>data = [10, 20, 30, 40, 50 :: 8 word], dims = \<lparr>dim0 = 5, dims_rest = []\<rparr>,
        lod = [[0, 1, 5], [0, 2, 5]], place = CPUPlace\<rparr> =
     lod (Input_X (inplace_ctx True [0, 2, 5])) @ [map scast [0, 2, 5 :: int32]]"
    by blast
  from h f d l show ?thesis
    by blast
qed

subsection \<open>C5: the first offset must be 0\<close>

text \<open>
  C5: every flat offset list whose first element is not 0 ends the run in
  \<open>InvalidArgument\<close>.
\<close>

theorem first_offset_must_be_zero:
  assumes "flat_offsets ctx level0"
    and "level0 \<noteq> []"
    and "hd level0 \<noteq> 0"
  shows "LoDResetKernel_Compute ctx =
           (TensorCopy (Input_X ctx) (place (Input_X ctx)) (Output_Out ctx),
            Raised InvalidArgument)"
proof -
  let ?out = "TensorCopy (Input_X ctx) (place (Input_X ctx)) (Output_Out ctx)"
  from assms(2,3) have "(scast (level0 ! 0) :: int64) \<noteq> 0"
    by (simp add: hd_conv_nth scast_eq_0_iff)
  then have "set_level0 (Input_X ctx) (attr_append ctx) ?out level0 = (?out, Raised InvalidArgument)"
    by (simp add: set_level0_def)
  with assms(1) flat_offsets_Compute [of ctx level0] show ?thesis
    by simp
qed

theorem first_offset_must_be_zero_witness:
  "flat_offsets (attr_ctx False [1, 5]) [1, 5] \<and> ([1, 5] :: int32 list) \<noteq> [] \<and>
   hd ([1, 5] :: int32 list) \<noteq> 0 \<and>
   LoDResetKernel_Compute (attr_ctx False [1, 5]) =
     (\<lparr>data = [10, 20, 30, 40, 50], dims = \<lparr>dim0 = 5, dims_rest = []\<rparr>, lod = [[0, 5]],
       place = CPUPlace\<rparr>, Raised InvalidArgument)"
proof -
  have h1: "flat_offsets (attr_ctx False [1, 5]) [1, 5]"
    by (simp add: flat_offsets_def attr_ctx_def)
  have h2: "([1, 5] :: int32 list) \<noteq> []"
    by simp
  have h3: "hd ([1, 5] :: int32 list) \<noteq> 0"
    by simp
  show ?thesis
    using h1 h2 h3 first_offset_must_be_zero [OF h1 h2 h3]
    by (simp add: example_defs TensorCopy_def)
qed

subsection \<open>C6: the gradient kernel copies\<close>

text \<open>
  C6: for every gradient of \<open>Out\<close>, the gradient kernel ends normally, whatever the
  tensors hold, and the gradient of \<open>X\<close> it leaves has the buffer, shape and place of the
  gradient of \<open>Out\<close>; the LoD of the destination is as before.
\<close>

theorem grad_is_buffer_copy:
  "snd (LoDResetGradKernel_Compute ctx) = OK \<and>
   data (fst (LoDResetGradKernel_Compute ctx)) = data (Input_Out_grad ctx) \<and>
   dims (fst (LoDResetGradKernel_Compute ctx)) = dims (Input_Out_grad ctx) \<and>
   place (fst (LoDResetGradKernel_Compute ctx)) = place (Input_Out_grad ctx) \<and>
   lod (fst (LoDResetGradKernel_Compute ctx)) = lod (Output_X_grad ctx)"
  by (simp add: LoDResetGradKernel_Compute_def TensorCopy_def Let_def)

subsection \<open>C8: what \<open>Alloc\<close> returns\<close>



subsection \<open>C9: a list of fewer than two offsets is rejected\<close>

text \<open>
  C9: every flat offset list with fewer than two elements ends the run in
  \<open>InvalidArgument\<close>, whatever its element and whatever the extent of \<open>X\<close>: the list
  \<open>[5]\<close> on an input of extent 5 is rejected.
\<close>

theorem short_list_rejected:
  assumes "flat_offsets ctx level0"
    and "length level0 < 2"
  shows "LoDResetKernel_Compute ctx =
           (TensorCopy (Input_X ctx) (place (Input_X ctx)) (Output_Out ctx),
            Raised InvalidArgument)"
proof -
  let ?out = "TensorCopy (Input_X ctx) (place (Input_X ctx)) (Output_Out ctx)"
  from assms(2) have "\<not> 1 < length level0"
    by simp
  then have "set_level0 (Input_X ctx) (attr_append ctx) ?out level0 = (?out, Raised InvalidArgument)"
    by (simp add: set_level0_def)
  with assms(1) flat_offsets_Compute [of ctx level0] show ?thesis
    by simp
qed

theorem short_list_rejected_witness:
  "flat_offsets (attr_ctx False [5]) [5] \<and> length ([5] :: int32 list) < 2 \<and>
   (scast (last ([5] :: int32 list)) :: int64) = dim0 (dims (Input_X (attr_ctx False [5]))) \<and>
   LoDResetKernel_Compute (attr_ctx False [5]) =
     (\<lparr>data = [10, 20, 30, 40, 50], dims = \<lparr>dim0 = 5, dims_rest = []\<rparr>, lod = [[0, 5]],
       place = CPUPlace\<rparr>, Raised InvalidArgument)"
proof -
  have h1: "flat_offsets (attr_ctx False [5]) [5]"
    by (simp add: flat_offsets_def attr_ctx_def)
  have h2: "length ([5] :: int32 list) < 2"
    by simp
  show ?thesis
    using h1 h2 short_list_rejected [OF h1 h2]
    by (simp add: example_defs TensorCopy_def)
qed

subsection \<open>C10: \<open>append\<close> adds a level, otherwise the LoD is replaced\<close>

text \<open>
  C10: when a flat offset list passes the four checks (more than one element, first
  element 0, last element equal to the extent of \<open>X\<close>, no offset smaller than the one
  before), the run succeeds; with \<open>append\<close> set the new level is added after the levels
  the output holds, and without it the LoD of the output is the new level alone.
\<close>

theorem append_or_replace:
  assumes "flat_offsets ctx level0"
    and "1 < length level0"
    and "hd level0 = 0"
    and "(scast (last level0) :: int64) = dim0 (dims (Input_X ctx))"
    and "\<forall>j. j + 1 < length level0 \<longrightarrow> level0 ! j \<le>s level0 ! (j + 1)"
  shows "LoDResetKernel_Compute ctx =
           (let out = TensorCopy (Input_X ctx) (place (Input_X ctx)) (Output_Out ctx)
            in if attr_append ctx then (out\<lparr>lod := lod out @ [map scast level0]\<rparr>, OK)
               else (out\<lparr>lod := [map scast level0]\<rparr>, OK))"
proof -
  let ?out = "TensorCopy (Input_X ctx) (place (Input_X ctx)) (Output_Out ctx)"
  from assms(2,3) have "level0 ! 0 = 0"
    by (cases level0) simp_all
  from set_level0_valid [OF assms(2) this assms(4,5)]
  have "set_level0 (Input_X ctx) (attr_append ctx) ?out level0 =
      (?out\<lparr>lod := (if attr_append ctx then lod ?out else []) @ [map scast level0]\<rparr>, OK)" .
  with assms(1) flat_offsets_Compute [of ctx level0] show ?thesis
    by (simp add: Let_def)
qed

theorem append_or_replace_witness:
  "flat_offsets (attr_ctx True [0, 2, 5]) [0, 2, 5] \<and>
   flat_offsets (attr_ctx False [0, 2, 5]) [0, 2, 5] \<and>
   1 < length ([0, 2, 5] :: int32 list) \<and> hd ([0, 2, 5] :: int32 list) = 0 \<and>
   (scast (last ([0, 2, 5] :: int32 list)) :: int64) = dim0 (dims x5) \<and>
   [0, 2, 5 :: int32] ! 0 \<le>s [0, 2, 5] ! 1 \<and> [0, 2, 5 :: int32] ! 1 \<le>s [0, 2, 5] ! 2 \<and>
   LoDResetKernel_Compute (attr_ctx True [0, 2, 5]) =
     (\<lparr>data = [10, 20, 30, 40, 50], dims = \<lparr>dim0 = 5, dims_rest = []\<rparr>,
       lod = [[0, 5], [0, 2, 5]], place = CPUPlace\<rparr>, OK) \<and>
   LoDResetKernel_Compute (attr_ctx False [0, 2, 5]) =
     (\<lparr>data = [10, 20, 30, 40, 50], dims = \<lparr>dim0 = 5, dims_rest = []\<rparr>,
       lod = [[0, 2, 5]], place = CPUPlace\<rparr>, OK)"
proof -
  have t: "flat_offsets (attr_ctx True [0, 2, 5]) [0, 2, 5]"
    by (simp add: flat_offsets_def attr_ctx_def)
  have f: "flat_offsets (attr_ctx False [0, 2, 5]) [0, 2, 5]"
    by (simp add: flat_offsets_def attr_ctx_def)
  have h2: "1 < length ([0, 2, 5] :: int32 list)"
    by simp
  have h3: "hd ([0, 2, 5] :: int32 list) = 0"
    by simp
  have h4: "(scast (last ([0, 2, 5] :: int32 list)) :: int64) = dim0 (dims x5)"
    by (simp add: x5_def)
  have h5: "\<forall>j. j + 1 < length ([0, 2, 5] :: int32 list) \<longrightarrow> [0, 2, 5 :: int32] ! j \<le>s [0, 2, 5] ! (j + 1)"
  proof (intro allI impI)
    fix j :: nat
    assume "j + 1 < length ([0, 2, 5] :: int32 list)"
    then have "j = 0 \<or> j = 1"
      by auto
    then show "[0, 2, 5 :: int32] ! j \<le>s [0, 2, 5] ! (j + 1)"
      by (auto simp: word_sle_eq)
  qed
  have xt: "Input_X (attr_ctx True [0, 2, 5]) = x5" and xf: "Input_X (attr_ctx False [0, 2, 5]) = x5"
    by (simp_all add: attr_ctx_def)
  have rt: "LoDResetKernel_Compute (attr_ctx True [0, 2, 5]) =
     (\<lparr>data = [10, 20, 30, 40, 50], dims = \<lparr>dim0 = 5, dims_rest = []\<rparr>,
       lod = [[0, 5], [0, 2, 5]], place = CPUPlace\<rparr>, OK)"
    using append_or_replace [OF t h2 h3 h4 [folded xt] h5]
    by (simp add: example_defs TensorCopy_def)
  have rf: "LoDResetKernel_Compute (attr_ctx False [0, 2, 5]) =
     (\<lparr>data = [10, 20, 30, 40, 50], dims = \<lparr>dim0 = 5, dims_rest = []\<rparr>,
       lod = [[0, 2, 5]], place = CPUPlace\<rparr>, OK)"
    using append_or_replace [OF f h2 h3 h4 [folded xf] h5]
    by (simp add: example_defs TensorCopy_def)
  have h6: "[0, 2, 5 :: int32] ! 0 \<le>s [0, 2, 5] ! 1 \<and> [0, 2, 5 :: int32] ! 1 \<le>s [0, 2, 5] ! 2"
    by (simp add: word_sle_eq)
  show ?thesis
    using t f h2 h3 h4 h6 rt rf by blast
qed

end
